theory Spec2Isabelle
  imports Main
begin

section \<open>Errors\<close>

text \<open>
  Everything the handlers and the data-access objects can raise is a value of \<open>error\<close>.
  \<open>HTTPException status detail\<close> is FastAPI's exception (status code and detail message),
  \<open>MultipleResultsFound\<close> is what SQLAlchemy's \<open>scalar_one_or_none\<close> raises on more than one
  row, \<open>IntegrityError\<close> is a violated unique constraint, \<open>TypeError\<close> and
  \<open>ValueError\<close> are Python's (passlib's errors are subclasses of \<open>ValueError\<close>). An error
  that is not an \<open>HTTPException\<close> reaches the client as status 500.
\<close>

datatype error =
    HTTPException nat string
  | MultipleResultsFound
  | IntegrityError
  | TypeError
  | ValueError

fun status_code :: "error \<Rightarrow> nat" where
  "status_code (HTTPException c d) = c"
| "status_code _ = 500"

section \<open>database/models/models.py\<close>

text \<open>The two tables. \<open>u_id\<close> and \<open>r_id\<close> are the primary keys \<open>User.id\<close> and \<open>Resume.id\<close>.\<close>

record user =
  u_id :: int
  u_email :: string
  u_hashed_password :: string

record resume =
  r_id :: int
  r_title :: string
  r_content :: string
  r_user_id :: int

text \<open>
  The database: the rows of both tables and the last value handed out by each
  autoincrement sequence.
\<close>

record db =
  users :: "user list"
  resumes :: "resume list"
  user_seq :: int
  resume_seq :: int

text \<open>
  What the schema of \<open>models.py\<close> makes the database keep: primary keys are unique and come
  from the sequence, \<open>User.email\<close> is unique.
\<close>

definition db_ok :: "db \<Rightarrow> bool" where
  "db_ok d \<longleftrightarrow>
     distinct (map u_id (users d)) \<and>
     distinct (map u_email (users d)) \<and>
     distinct (map r_id (resumes d)) \<and>
     list_all (\<lambda>u. u_id u \<le> user_seq d) (users d) \<and>
     list_all (\<lambda>r. r_id r \<le> resume_seq d) (resumes d)"

definition empty_db :: db where
  "empty_db = \<lparr>users = [], resumes = [], user_seq = 0, resume_seq = 0\<rparr>"

section \<open>database/crud.py\<close>

text \<open>\<open>Result.scalar_one_or_none()\<close>: no row, the one row, or \<open>MultipleResultsFound\<close>.\<close>

fun scalar_one_or_none :: "'a list \<Rightarrow> error + 'a option" where
  "scalar_one_or_none [] = Inr None"
| "scalar_one_or_none [x] = Inr (Some x)"
| "scalar_one_or_none (x # y # zs) = Inl MultipleResultsFound"

subsection \<open>UserDAO\<close>

definition get_user_by_email :: "db \<Rightarrow> string \<Rightarrow> error + user option" where
  "get_user_by_email d e = scalar_one_or_none (filter (\<lambda>u. u_email u = e) (users d))"

text \<open>
  \<open>create_user\<close> is \<open>BaseDAO.add\<close>: the row is inserted with the next value of the
  sequence; the unique constraint on \<open>email\<close> refuses a second row with the same address.
\<close>

definition create_user :: "db \<Rightarrow> string \<Rightarrow> string \<Rightarrow> error + (user \<times> db)" where
  "create_user d e h =
     (if e \<in> set (map u_email (users d)) then Inl IntegrityError
      else let obj = \<lparr>u_id = user_seq d + 1, u_email = e, u_hashed_password = h\<rparr>
           in Inr (obj, d\<lparr>users := users d @ [obj], user_seq := user_seq d + 1\<rparr>))"

definition exists_by_email :: "db \<Rightarrow> string \<Rightarrow> error + bool" where
  "exists_by_email d e =
     (case get_user_by_email d e of Inl err \<Rightarrow> Inl err | Inr r \<Rightarrow> Inr (r \<noteq> None))"

subsection \<open>ResumeDAO\<close>

definition get_all_by_user :: "db \<Rightarrow> int \<Rightarrow> resume list" where
  "get_all_by_user d uid = filter (\<lambda>r. r_user_id r = uid) (resumes d)"

definition get_by_id_for_user :: "db \<Rightarrow> int \<Rightarrow> int \<Rightarrow> error + resume option" where
  "get_by_id_for_user d res_id uid =
     scalar_one_or_none (filter (\<lambda>r. r_id r = res_id \<and> r_user_id r = uid) (resumes d))"

definition add_for_user :: "db \<Rightarrow> int \<Rightarrow> string \<Rightarrow> string \<Rightarrow> resume \<times> db" where
  "add_for_user d uid t c =
     (let obj = \<lparr>r_id = resume_seq d + 1, r_title = t, r_content = c, r_user_id = uid\<rparr>
      in (obj, d\<lparr>resumes := resumes d @ [obj], resume_seq := resume_seq d + 1\<rparr>))"

text \<open>
  \<open>hasattr(obj, k)\<close> and \<open>setattr(obj, k, v)\<close> on a \<open>Resume\<close>, for the keys the router can
  pass (the fields of \<open>ResumeUpdate\<close>).
\<close>

definition hasattr :: "string \<Rightarrow> bool" where
  "hasattr k \<longleftrightarrow> k = ''title'' \<or> k = ''content''"

definition setattr :: "resume \<Rightarrow> string \<Rightarrow> string \<Rightarrow> resume" where
  "setattr obj k v =
     (if k = ''title'' then obj\<lparr>r_title := v\<rparr>
      else if k = ''content'' then obj\<lparr>r_content := v\<rparr>
      else obj)"

text \<open>The loop \<open>for k, v in fields.items(): if hasattr(obj, k): setattr(obj, k, v)\<close>.\<close>

fun set_fields :: "(string \<times> string) list \<Rightarrow> resume \<Rightarrow> resume" where
  "set_fields [] obj = obj"
| "set_fields ((k, v) # kvs) obj =
     set_fields kvs (if hasattr k then setattr obj k v else obj)"

text \<open>
  \<open>update_for_user\<close>: the row is selected by id and owner together; on commit the changed
  object is written back to its row (by primary key).
\<close>

definition update_for_user ::
  "db \<Rightarrow> int \<Rightarrow> int \<Rightarrow> (string \<times> string) list \<Rightarrow> (error + resume option) \<times> db" where
  "update_for_user d res_id uid flds =
     (case scalar_one_or_none
             (filter (\<lambda>r. r_id r = res_id \<and> r_user_id r = uid) (resumes d)) of
        Inl err \<Rightarrow> (Inl err, d)
      | Inr None \<Rightarrow> (Inr None, d)
      | Inr (Some obj) \<Rightarrow>
          (let obj' = set_fields flds obj
           in (Inr (Some obj'),
               d\<lparr>resumes := map (\<lambda>r. if r_id r = r_id obj then obj' else r) (resumes d)\<rparr>)))"

text \<open>\<open>delete_for_user\<close>: same selection; the row is deleted (by primary key) and returned.\<close>

definition delete_for_user :: "db \<Rightarrow> int \<Rightarrow> int \<Rightarrow> (error + resume option) \<times> db" where
  "delete_for_user d res_id uid =
     (case scalar_one_or_none
             (filter (\<lambda>r. r_id r = res_id \<and> r_user_id r = uid) (resumes d)) of
        Inl err \<Rightarrow> (Inl err, d)
      | Inr None \<Rightarrow> (Inr None, d)
      | Inr (Some obj) \<Rightarrow>
          (Inr (Some obj), d\<lparr>resumes := filter (\<lambda>r. r_id r \<noteq> r_id obj) (resumes d)\<rparr>))"

section \<open>settings/config.py\<close>

text \<open>\<open>JWTSettings\<close>: read from the environment once, at import.\<close>

record jwtsettings =
  JWT_SECRET :: string
  JWT_ALG :: string
  ACCESS_TOKEN_EXPIRE_MIN :: int

section \<open>Time\<close>

text \<open>
  A \<open>datetime\<close> has microsecond resolution: it is the number of microseconds since the
  epoch. \<open>int(dt.timestamp())\<close> truncates the seconds towards zero;
  \<open>timegm(dt.utctimetuple())\<close> drops the microsecond field.
\<close>

type_synonym datetime = int

definition timedelta_minutes :: "int \<Rightarrow> int" where
  "timedelta_minutes m = m * 60000000"

definition int_timestamp :: "datetime \<Rightarrow> int" where
  "int_timestamp t = (if 0 \<le> t then t div 1000000 else - ((- t) div 1000000))"

definition timegm_utctimetuple :: "datetime \<Rightarrow> int" where
  "timegm_utctimetuple t = t div 1000000"

section \<open>The JWT library (python-jose)\<close>

text \<open>
  \<open>jose.jwt\<close> is a third-party package, not a file of this repository; \<open>auth_service.py\<close>
  calls its \<open>encode\<close> and \<open>decode\<close>. They are modelled symbolically, after the library:
  a compact token carries its header's algorithm, its claims and a signature, and the
  signature is the MAC term of key, algorithm and claims, so that it verifies exactly
  under the key and algorithm that made it. Any other string is \<open>Opaque\<close>.
  Of the claims only \<open>sub\<close>, \<open>iat\<close> and \<open>exp\<close> occur; each may be absent.
\<close>

record claims =
  c_sub :: "string option"
  c_iat :: "int option"
  c_exp :: "int option"

datatype signature = Mac string string claims

datatype jwt_string = Opaque string | Jws string claims signature

text \<open>The subclasses of \<open>JWTError\<close> that \<open>decode\<close> raises.\<close>

datatype JWTError = JWSError | ExpiredSignatureError

definition jwt_encode :: "claims \<Rightarrow> string \<Rightarrow> string \<Rightarrow> jwt_string" where
  "jwt_encode payload key algorithm = Jws algorithm payload (Mac key algorithm payload)"

text \<open>
  \<open>decode\<close> at the time \<open>now\<close>: the token must parse, its algorithm must be among the
  allowed ones, the signature must verify; then \<open>exp\<close>, when present, is compared with the
  current time in whole seconds, and the token is expired when \<open>exp < now\<close>.
\<close>

fun jwt_decode :: "datetime \<Rightarrow> jwt_string \<Rightarrow> string \<Rightarrow> string list \<Rightarrow> JWTError + claims" where
  "jwt_decode now (Opaque s) key algorithms = Inl JWSError"
| "jwt_decode now (Jws alg payload sg) key algorithms =
     (if alg \<notin> set algorithms then Inl JWSError
      else if sg \<noteq> Mac key alg payload then Inl JWSError
      else (case c_exp payload of
              None \<Rightarrow> Inr payload
            | Some e \<Rightarrow>
                if e < timegm_utctimetuple now then Inl ExpiredSignatureError
                else Inr payload))"

section \<open>api/schemas.py\<close>

record UserRegistration =
  reg_email :: string
  reg_password :: string

record UserLogin =
  login_email :: string
  login_password :: string

record Token =
  access_token :: jwt_string
  token_type :: string
  expires_at :: datetime

record ResumeCreate =
  new_title :: string
  new_content :: string

record ResumeUpdate =
  upd_title :: "string option"
  upd_content :: "string option"

text \<open>\<open>ResumeOut\<close>, built from the attributes of a \<open>Resume\<close> (\<open>from_attributes=True\<close>).\<close>

record resume_out =
  out_id :: int
  out_title :: string
  out_content :: string

definition ResumeOut :: "resume \<Rightarrow> resume_out" where
  "ResumeOut r = \<lparr>out_id = r_id r, out_title = r_title r, out_content = r_content r\<rparr>"

section \<open>services/auth_service.py\<close>

text \<open>
  \<open>pwd_context\<close> is passlib's \<open>CryptContext\<close> for bcrypt, a third-party package. The
  bcrypt computation itself is taken as it comes: \<open>digest\<close> (with the salt it draws),
  \<open>matches\<close> (the comparison of a password with a digest) and \<open>identifies\<close> (whether a
  stored string is a bcrypt hash). What passlib does around it is modelled after the
  library: a password of more than 4096 characters is refused (\<open>PasswordSizeError\<close>), one
  that contains a NUL character is refused (\<open>NullPasswordError\<close>), and \<open>verify\<close> refuses
  a hash it cannot identify (\<open>UnknownHashError\<close>); all three are \<open>ValueError\<close>s.
\<close>

record pwd_context =
  digest :: "string \<Rightarrow> string"
  matches :: "string \<Rightarrow> string \<Rightarrow> bool"
  identifies :: "string \<Rightarrow> bool"

definition MAX_PASSWORD_SIZE :: nat where
  "MAX_PASSWORD_SIZE = 4096"

definition validate_secret :: "string \<Rightarrow> error option" where
  "validate_secret secret =
     (if length secret > MAX_PASSWORD_SIZE then Some ValueError
      else if CHR 0x00 \<in> set secret then Some ValueError
      else None)"

definition pwd_context_hash :: "pwd_context \<Rightarrow> string \<Rightarrow> error + string" where
  "pwd_context_hash ctx secret =
     (case validate_secret secret of
        Some err \<Rightarrow> Inl err
      | None \<Rightarrow> Inr (digest ctx secret))"

definition pwd_context_verify :: "pwd_context \<Rightarrow> string \<Rightarrow> string \<Rightarrow> error + bool" where
  "pwd_context_verify ctx secret hash =
     (if \<not> identifies ctx hash then Inl ValueError
      else case validate_secret secret of
             Some err \<Rightarrow> Inl err
           | None \<Rightarrow> Inr (matches ctx secret hash))"

text \<open>\<open>hash_password\<close> and \<open>verify_password\<close> call the context and handle no exception.\<close>

definition hash_password :: "pwd_context \<Rightarrow> string \<Rightarrow> error + string" where
  "hash_password ctx raw = pwd_context_hash ctx raw"

definition verify_password :: "pwd_context \<Rightarrow> string \<Rightarrow> string \<Rightarrow> error + bool" where
  "verify_password ctx raw hashed = pwd_context_verify ctx raw hashed"

definition create_access_token :: "jwtsettings \<Rightarrow> datetime \<Rightarrow> string \<Rightarrow> int \<Rightarrow> Token" where
  "create_access_token cfg now sub expires_minutes =
     (let expire = now + timedelta_minutes expires_minutes;
          payload = \<lparr>c_sub = Some sub,
                     c_iat = Some (int_timestamp now),
                     c_exp = Some (int_timestamp expire)\<rparr>;
          token = jwt_encode payload (JWT_SECRET cfg) (JWT_ALG cfg)
      in \<lparr>access_token = token, token_type = ''bearer'', expires_at = expire\<rparr>)"

text \<open>
  \<open>get_current_user\<close> at the time \<open>now\<close>. An \<open>HTTPException\<close> raised inside the \<open>try\<close> is
  not a \<open>JWTError\<close> and passes the \<open>except\<close> clause unchanged; so does an error of the
  user lookup.
\<close>

definition get_current_user :: "jwtsettings \<Rightarrow> db \<Rightarrow> datetime \<Rightarrow> jwt_string \<Rightarrow> error + user" where
  "get_current_user cfg d now token =
     (if token = Opaque [] then Inl (HTTPException 401 ''Missing token'')
      else case jwt_decode now token (JWT_SECRET cfg) [JWT_ALG cfg] of
             Inl jwt_error \<Rightarrow> Inl (HTTPException 401 ''Invalid or expired token'')
           | Inr payload \<Rightarrow>
               (case c_sub payload of
                  None \<Rightarrow> Inl (HTTPException 401 ''Invalid token'')
                | Some sub \<Rightarrow>
                    if sub = [] then Inl (HTTPException 401 ''Invalid token'')
                    else (case get_user_by_email d sub of
                            Inl err \<Rightarrow> Inl err
                          | Inr None \<Rightarrow> Inl (HTTPException 401 ''User not found'')
                          | Inr (Some u) \<Rightarrow> Inr u)))"

section \<open>api/routers.py\<close>

text \<open>The two detail messages written in Russian in the source, as their UTF-8 bytes.\<close>

definition detail_email_exists :: string where
  "detail_email_exists =
    [CHR 0xD0, CHR 0x9F, CHR 0xD0, CHR 0xBE, CHR 0xD0, CHR 0xBB, CHR 0xD1, CHR 0x8C, CHR 0xD0,
     CHR 0xB7, CHR 0xD0, CHR 0xBE, CHR 0xD0, CHR 0xB2, CHR 0xD0, CHR 0xB0, CHR 0xD1, CHR 0x82,
     CHR 0xD0, CHR 0xB5, CHR 0xD0, CHR 0xBB, CHR 0xD1, CHR 0x8C, CHR '' '', CHR 0xD1,
     CHR 0x81, CHR '' '', CHR 0xD1, CHR 0x82, CHR 0xD0, CHR 0xB0, CHR 0xD0, CHR 0xBA,
     CHR 0xD0, CHR 0xB8, CHR 0xD0, CHR 0xBC, CHR '' '', CHR ''e'', CHR ''m'', CHR ''a'',
     CHR ''i'', CHR ''l'', CHR '' '', CHR 0xD1, CHR 0x83, CHR 0xD0, CHR 0xB6, CHR 0xD0,
     CHR 0xB5, CHR '' '', CHR 0xD1, CHR 0x81, CHR 0xD1, CHR 0x83, CHR 0xD1, CHR 0x89,
     CHR 0xD0, CHR 0xB5, CHR 0xD1, CHR 0x81, CHR 0xD1, CHR 0x82, CHR 0xD0, CHR 0xB2, CHR 0xD1,
     CHR 0x83, CHR 0xD0, CHR 0xB5, CHR 0xD1, CHR 0x82]"

definition detail_bad_credentials :: string where
  "detail_bad_credentials =
    [CHR 0xD0, CHR 0x9D, CHR 0xD0, CHR 0xB5, CHR 0xD0, CHR 0xB2, CHR 0xD0, CHR 0xB5, CHR 0xD1,
     CHR 0x80, CHR 0xD0, CHR 0xBD, CHR 0xD1, CHR 0x8B, CHR 0xD0, CHR 0xB5, CHR '' '',
     CHR 0xD1, CHR 0x83, CHR 0xD1, CHR 0x87, CHR 0xD0, CHR 0xB5, CHR 0xD1, CHR 0x82, CHR 0xD0,
     CHR 0xBD, CHR 0xD1, CHR 0x8B, CHR 0xD0, CHR 0xB5, CHR '' '', CHR 0xD0, CHR 0xB4,
     CHR 0xD0, CHR 0xB0, CHR 0xD0, CHR 0xBD, CHR 0xD0, CHR 0xBD, CHR 0xD1, CHR 0x8B, CHR 0xD0,
     CHR 0xB5]"

subsection \<open>Registration and login\<close>

definition register ::
  "jwtsettings \<Rightarrow> pwd_context \<Rightarrow> datetime \<Rightarrow> db \<Rightarrow> UserRegistration \<Rightarrow> (error + Token) \<times> db" where
  "register cfg ctx now d body =
     (case get_user_by_email d (reg_email body) of
        Inl err \<Rightarrow> (Inl err, d)
      | Inr (Some u) \<Rightarrow> (Inl (HTTPException 400 detail_email_exists), d)
      | Inr None \<Rightarrow>
          (case hash_password ctx (reg_password body) of
             Inl err \<Rightarrow> (Inl err, d)
           | Inr hashed \<Rightarrow>
               (case create_user d (reg_email body) hashed of
                  Inl err \<Rightarrow> (Inl err, d)
                | Inr (obj, d') \<Rightarrow>
                    (Inr (create_access_token cfg now (reg_email body)
                            (ACCESS_TOKEN_EXPIRE_MIN cfg)), d'))))"

text \<open>
  \<open>login\<close>: in \<open>not user or not verify_password(...)\<close> the password is verified only
  when the user was found; an exception of \<open>verify_password\<close> leaves the handler as it is.
\<close>

definition login ::
  "jwtsettings \<Rightarrow> pwd_context \<Rightarrow> datetime \<Rightarrow> db \<Rightarrow> UserLogin \<Rightarrow> error + Token" where
  "login cfg ctx now d body =
     (case get_user_by_email d (login_email body) of
        Inl err \<Rightarrow> Inl err
      | Inr None \<Rightarrow> Inl (HTTPException 401 detail_bad_credentials)
      | Inr (Some u) \<Rightarrow>
          (case verify_password ctx (login_password body) (u_hashed_password u) of
             Inl err \<Rightarrow> Inl err
           | Inr ok \<Rightarrow>
               if \<not> ok then Inl (HTTPException 401 detail_bad_credentials)
               else Inr (create_access_token cfg now (login_email body)
                           (ACCESS_TOKEN_EXPIRE_MIN cfg))))"

subsection \<open>The resume handlers\<close>

text \<open>Each handler receives \<open>current_user\<close>, the user that \<open>get_current_user\<close> returned.\<close>

definition list_resumes :: "db \<Rightarrow> user \<Rightarrow> resume_out list" where
  "list_resumes d current_user = map ResumeOut (get_all_by_user d (u_id current_user))"

definition create_resume :: "db \<Rightarrow> ResumeCreate \<Rightarrow> user \<Rightarrow> resume_out \<times> db" where
  "create_resume d body current_user =
     (case add_for_user d (u_id current_user) (new_title body) (new_content body) of
        (obj, d') \<Rightarrow> (ResumeOut obj, d'))"

definition get_resume :: "db \<Rightarrow> int \<Rightarrow> user \<Rightarrow> error + resume_out" where
  "get_resume d res_id current_user =
     (case get_by_id_for_user d res_id (u_id current_user) of
        Inl err \<Rightarrow> Inl err
      | Inr None \<Rightarrow> Inl (HTTPException 404 ''Resume not found'')
      | Inr (Some item) \<Rightarrow> Inr (ResumeOut item))"

text \<open>
  \<open>improve_resume\<close> builds \<open>{**item, "content": f"{item.get('content', '')} [Improved]"}\<close>.
  The operand of \<open>**\<close> must be a mapping; a value that is not one makes the dict display
  raise \<open>TypeError\<close> before anything else of it is evaluated. \<open>item\<close> is what
  \<open>get_by_id_for_user\<close> returned: a \<open>Resume\<close> instance, which has attributes and no keys.
\<close>

datatype pyval = PyInt int | PyStr string

type_synonym pydict = "(string \<times> pyval) list"

datatype pyobj = Instance resume | Dict pydict

fun dict_unpack :: "pyobj \<Rightarrow> error + pydict" where
  "dict_unpack (Dict m) = Inr m"
| "dict_unpack (Instance r) = Inl TypeError"

text \<open>\<open>m.get(k, default)\<close> and the store \<open>m[k] = v\<close> that a later key of a display makes.\<close>

definition dict_get :: "pydict \<Rightarrow> string \<Rightarrow> pyval \<Rightarrow> pyval" where
  "dict_get m k dflt = (case map_of m k of None \<Rightarrow> dflt | Some v \<Rightarrow> v)"

definition dict_set :: "pydict \<Rightarrow> string \<Rightarrow> pyval \<Rightarrow> pydict" where
  "dict_set m k v =
     (if k \<in> set (map fst m) then map (\<lambda>(k', v'). if k' = k then (k', v) else (k', v')) m
      else m @ [(k, v)])"

text \<open>\<open>str\<close> of a value, as an f-string formats it.\<close>

fun digits :: "nat \<Rightarrow> string" where
  "digits n = (if n < 10 then [char_of (48 + n)]
               else digits (n div 10) @ [char_of (48 + n mod 10)])"

fun py_str :: "pyval \<Rightarrow> string" where
  "py_str (PyStr s) = s"
| "py_str (PyInt i) = (if i < 0 then CHR ''-'' # digits (nat (- i)) else digits (nat i))"

definition improve_resume :: "db \<Rightarrow> int \<Rightarrow> user \<Rightarrow> error + pydict" where
  "improve_resume d res_id current_user =
     (case get_by_id_for_user d res_id (u_id current_user) of
        Inl err \<Rightarrow> Inl err
      | Inr None \<Rightarrow> Inl (HTTPException 404 ''Resume not found'')
      | Inr (Some item) \<Rightarrow>
          (case dict_unpack (Instance item) of
             Inl err \<Rightarrow> Inl err
           | Inr m \<Rightarrow>
               Inr (dict_set m ''content''
                      (PyStr (py_str (dict_get m ''content'' (PyStr [])) @ '' [Improved]'')))))"

text \<open>
  \<open>update_resume\<close>: \<open>body.dict()\<close> lists both fields of \<open>ResumeUpdate\<close>; \<open>data\<close> keeps the
  ones that are not \<open>None\<close>.
\<close>

definition body_dict :: "ResumeUpdate \<Rightarrow> (string \<times> string option) list" where
  "body_dict body = [(''title'', upd_title body), (''content'', upd_content body)]"

definition update_data :: "ResumeUpdate \<Rightarrow> (string \<times> string) list" where
  "update_data body = [(k, the v). (k, v) \<leftarrow> body_dict body, v \<noteq> None]"

definition update_resume ::
  "db \<Rightarrow> int \<Rightarrow> ResumeUpdate \<Rightarrow> user \<Rightarrow> (error + resume_out) \<times> db" where
  "update_resume d res_id body current_user =
     (let data = update_data body
      in if data = [] then (Inl (HTTPException 400 ''Nothing to update''), d)
         else (case update_for_user d res_id (u_id current_user) data of
                 (Inl err, d') \<Rightarrow> (Inl err, d')
               | (Inr None, d') \<Rightarrow> (Inl (HTTPException 404 ''Resume not found''), d')
               | (Inr (Some item), d') \<Rightarrow> (Inr (ResumeOut item), d')))"

definition delete_resume :: "db \<Rightarrow> int \<Rightarrow> user \<Rightarrow> (error + resume_out) \<times> db" where
  "delete_resume d res_id current_user =
     (case delete_for_user d res_id (u_id current_user) of
        (Inl err, d') \<Rightarrow> (Inl err, d')
      | (Inr None, d') \<Rightarrow> (Inl (HTTPException 404 ''Resume not found''), d')
      | (Inr (Some item), d') \<Rightarrow> (Inr (ResumeOut item), d'))"

section \<open>A concrete deployment\<close>

text \<open>
  Two users with one resume each, a configuration, and a stand-in for the password
  context (it prefixes instead of hashing), for running the model on concrete inputs.
\<close>

definition cfg0 :: jwtsettings where
  "cfg0 = \<lparr>JWT_SECRET = ''s3cret'', JWT_ALG = ''HS256'', ACCESS_TOKEN_EXPIRE_MIN = 30\<rparr>"

definition ctx0 :: pwd_context where
  "ctx0 = \<lparr>digest = (\<lambda>raw. ''$2b$'' @ raw),
           matches = (\<lambda>raw hashed. hashed = ''$2b$'' @ raw),
           identifies = (\<lambda>hashed. take 4 hashed = ''$2b$'')\<rparr>"

definition alice :: user where
  "alice = \<lparr>u_id = 1, u_email = ''a@x.com'', u_hashed_password = ''$2b$password123''\<rparr>"

definition bob :: user where
  "bob = \<lparr>u_id = 2, u_email = ''b@x.com'', u_hashed_password = ''$2b$hunter2hunter2''\<rparr>"

definition resume1 :: resume where
  "resume1 = \<lparr>r_id = 1, r_title = ''R1'', r_content = ''C1'', r_user_id = 1\<rparr>"

definition resume2 :: resume where
  "resume2 = \<lparr>r_id = 2, r_title = ''R2'', r_content = ''C2'', r_user_id = 2\<rparr>"

definition db1 :: db where
  "db1 = \<lparr>users = [alice, bob], resumes = [resume1, resume2], user_seq = 2, resume_seq = 2\<rparr>"

section \<open>Facts about the store\<close>


lemma db1_ok: "db_ok db1"
  by (simp add: db_ok_def db1_def alice_def bob_def resume1_def resume2_def)

lemma filter_key_unique:
  "distinct (map f xs) \<Longrightarrow> x \<in> set xs \<Longrightarrow> filter (\<lambda>y. f y = f x) xs = [x]"
proof (induction xs)
  case Nil
  then show ?case by simp
next
  case (Cons a xs)
  show ?case
  proof (cases "a = x")
    case True
    have "f y \<noteq> f x" if "y \<in> set xs" for y
      using Cons.prems(1) True that by (metis distinct.simps(2) imageI list.simps(9) list.set_map)
    then have "filter (\<lambda>y. f y = f x) xs = []" by (simp add: filter_empty_conv)
    with True show ?thesis by simp
  next
    case False
    with Cons.prems have "x \<in> set xs" by simp
    moreover have "f a \<noteq> f x" using Cons.prems(1) \<open>x \<in> set xs\<close> by auto
    ultimately show ?thesis using Cons by simp
  qed
qed

lemma filter_key_and:
  assumes "distinct (map f xs)" and "x \<in> set xs"
  shows "filter (\<lambda>y. f y = f x \<and> P y) xs = (if P x then [x] else [])"
proof -
  have "filter (\<lambda>y. f y = f x \<and> P y) xs = filter P (filter (\<lambda>y. f y = f x) xs)"
    by (simp add: conj_commute)
  also have "\<dots> = filter P [x]" by (simp only: filter_key_unique [OF assms])
  finally show ?thesis by simp
qed

lemma filter_key_absent:
  "k \<notin> f ` set xs \<Longrightarrow> filter (\<lambda>y. f y = k \<and> P y) xs = []"
  by (auto simp: filter_empty_conv)

lemma owned_lookup:
  assumes "db_ok d" and "r \<in> set (resumes d)"
  shows "filter (\<lambda>x. r_id x = r_id r \<and> r_user_id x = uid) (resumes d) =
         (if r_user_id r = uid then [r] else [])"
  using assms filter_key_and [of r_id "resumes d" r "\<lambda>x. r_user_id x = uid"]
  by (simp add: db_ok_def)

lemma user_lookup:
  assumes "db_ok d" and "u \<in> set (users d)"
  shows "get_user_by_email d (u_email u) = Inr (Some u)"
proof -
  have "distinct (map u_email (users d))" using assms(1) by (simp add: db_ok_def)
  from filter_key_unique [OF this assms(2)] show ?thesis
    by (simp add: get_user_by_email_def)
qed

lemma user_lookup_absent:
  assumes "e \<notin> u_email ` set (users d)"
  shows "get_user_by_email d e = Inr None"
proof -
  have "filter (\<lambda>u. u_email u = e) (users d) = []"
    using assms by (auto simp: filter_empty_conv)
  then show ?thesis by (simp add: get_user_by_email_def)
qed

lemma scalar_one_or_none_error: "scalar_one_or_none xs = Inl e \<Longrightarrow> e = MultipleResultsFound"
  by (cases xs rule: scalar_one_or_none.cases) auto

lemma get_user_by_email_error: "get_user_by_email d e = Inl err \<Longrightarrow> err = MultipleResultsFound"
  by (auto simp: get_user_by_email_def dest: scalar_one_or_none_error)

lemma get_user_by_email_ok:
  assumes "db_ok d"
  shows "\<exists>r. get_user_by_email d e = Inr r"
proof (cases "e \<in> u_email ` set (users d)")
  case True
  then obtain u where "u \<in> set (users d)" "u_email u = e" by auto
  with user_lookup [OF assms] show ?thesis by blast
next
  case False
  then show ?thesis by (simp add: user_lookup_absent)
qed

text \<open>The empty store satisfies \<open>db_ok\<close>, and every writing operation keeps it.\<close>

lemma empty_db_ok: "db_ok empty_db"
  by (simp add: db_ok_def empty_db_def)

lemma create_user_ok:
  assumes "db_ok d" and "create_user d e h = Inr (obj, d')"
  shows "db_ok d'"
proof -
  from assms(2) have fresh: "e \<notin> set (map u_email (users d))"
    and d': "d' = d\<lparr>users := users d @ [\<lparr>u_id = user_seq d + 1, u_email = e,
                                          u_hashed_password = h\<rparr>],
                   user_seq := user_seq d + 1\<rparr>"
    by (auto simp: create_user_def Let_def split: if_splits)
  have below: "\<forall>u \<in> set (users d). u_id u \<le> user_seq d"
    using assms(1) by (simp add: db_ok_def list_all_iff)
  then have "user_seq d + 1 \<notin> set (map u_id (users d))" by auto
  moreover have "list_all (\<lambda>u. u_id u \<le> user_seq d + 1) (users d)"
    using below by (auto simp: list_all_iff)
  ultimately show ?thesis
    using assms(1) fresh by (simp add: db_ok_def d')
qed

lemma add_for_user_ok:
  assumes "db_ok d" and "add_for_user d uid t c = (obj, d')"
  shows "db_ok d'"
proof -
  from assms(2) have d': "d' = d\<lparr>resumes := resumes d @ [\<lparr>r_id = resume_seq d + 1, r_title = t,
                                              r_content = c, r_user_id = uid\<rparr>],
                   resume_seq := resume_seq d + 1\<rparr>"
    by (auto simp: add_for_user_def Let_def)
  have below: "\<forall>r \<in> set (resumes d). r_id r \<le> resume_seq d"
    using assms(1) by (simp add: db_ok_def list_all_iff)
  then have "resume_seq d + 1 \<notin> set (map r_id (resumes d))" by auto
  moreover have "list_all (\<lambda>r. r_id r \<le> resume_seq d + 1) (resumes d)"
    using below by (auto simp: list_all_iff)
  ultimately show ?thesis
    using assms(1) by (simp add: db_ok_def d')
qed

lemma set_fields_keeps_key: "r_id (set_fields kvs obj) = r_id obj"
  by (induction kvs obj rule: set_fields.induct) (simp_all add: setattr_def)

lemma set_fields_keeps_owner: "r_user_id (set_fields kvs obj) = r_user_id obj"
  by (induction kvs obj rule: set_fields.induct) (simp_all add: setattr_def)

lemma update_for_user_ok:
  assumes "db_ok d" and "update_for_user d res_id uid flds = (res, d')"
  shows "db_ok d'"
proof (cases "scalar_one_or_none
                (filter (\<lambda>r. r_id r = res_id \<and> r_user_id r = uid) (resumes d))")
  case (Inl err)
  with assms show ?thesis by (simp add: update_for_user_def)
next
  case (Inr found)
  show ?thesis
  proof (cases found)
    case None
    with Inr assms show ?thesis by (simp add: update_for_user_def)
  next
    case (Some obj)
    let ?new = "map (\<lambda>r. if r_id r = r_id obj then set_fields flds obj else r) (resumes d)"
    have d': "d' = d\<lparr>resumes := ?new\<rparr>"
      using assms(2) Inr Some by (simp add: update_for_user_def Let_def)
    have keys: "map r_id ?new = map r_id (resumes d)"
      by (induction "resumes d") (simp_all add: set_fields_keeps_key)
    have "\<forall>r \<in> set (resumes d). r_id r \<le> resume_seq d"
      using assms(1) by (simp add: db_ok_def list_all_iff)
    then have "list_all (\<lambda>r. r_id r \<le> resume_seq d) ?new"
      by (auto simp: list_all_iff set_fields_keeps_key)
    moreover have "distinct (map r_id ?new)"
      by (subst keys) (use assms(1) in \<open>simp add: db_ok_def\<close>)
    ultimately show ?thesis using assms(1) by (simp add: db_ok_def d')
  qed
qed

lemma delete_for_user_ok:
  assumes "db_ok d" and "delete_for_user d res_id uid = (res, d')"
  shows "db_ok d'"
proof -
  from assms(2) have "d' = d \<or> (\<exists>k. d' = d\<lparr>resumes := filter (\<lambda>r. r_id r \<noteq> k) (resumes d)\<rparr>)"
    by (auto simp: delete_for_user_def split: sum.splits option.splits)
  then show ?thesis
    using assms(1) by (auto simp: db_ok_def distinct_map_filter list_all_iff)
qed

section \<open>Ownership-scoped lookup\<close>


lemma distinct_map_eq:
  "distinct (map f xs) \<Longrightarrow> x \<in> set xs \<Longrightarrow> y \<in> set xs \<Longrightarrow> f x = f y \<Longrightarrow> x = y"
  by (meson distinct_map inj_on_def)

lemma filter_other_owner_empty:
  assumes "distinct (map r_id rs)" and "r \<in> set rs" and "r_user_id r \<noteq> uid"
  shows "filter (\<lambda>x. r_id x = r_id r \<and> r_user_id x = uid) rs = []"
proof -
  have "\<not> (r_id x = r_id r \<and> r_user_id x = uid)" if "x \<in> set rs" for x
    using distinct_map_eq [OF assms(1) that assms(2)] assms(3) by auto
  then show ?thesis by (simp add: filter_empty_conv)
qed

text \<open>
  C1. A resume of user A is invisible to any other user B: the lookup by (resume id,
  B's id) finds nothing, and the handler of GET /resume/{id}, run with B's identity,
  answers 404 "Resume not found" (not the resume, and not a "forbidden" answer).
\<close>

theorem other_user_lookup_not_found:
  assumes "db_ok d" and "r \<in> set (resumes d)"
    and "r_user_id r = u_id A" and "u_id B \<noteq> u_id A"
  shows "get_by_id_for_user d (r_id r) (u_id B) = Inr None \<and>
         get_resume d (r_id r) B = Inl (HTTPException 404 ''Resume not found'')"
proof -
  have ids: "distinct (map r_id (resumes d))" using assms(1) by (simp add: db_ok_def)
  have other: "r_user_id r \<noteq> u_id B" using assms(3,4) by simp
  have "filter (\<lambda>x. r_id x = r_id r \<and> r_user_id x = u_id B) (resumes d) = []"
    by (rule filter_other_owner_empty [OF ids assms(2) other])
  then have "get_by_id_for_user d (r_id r) (u_id B) = Inr None"
    by (simp add: get_by_id_for_user_def)
  then show ?thesis by (simp add: get_resume_def)
qed

theorem other_user_lookup_not_found_witness:
  "db_ok db1 \<and> resume1 \<in> set (resumes db1) \<and> r_user_id resume1 = u_id alice \<and>
   u_id bob \<noteq> u_id alice \<and>
   get_by_id_for_user db1 (r_id resume1) (u_id bob) = Inr None \<and>
   get_resume db1 (r_id resume1) bob = Inl (HTTPException 404 ''Resume not found'')"
  using other_user_lookup_not_found [of db1 resume1 alice bob] db1_ok
  by (simp add: db1_def alice_def bob_def resume1_def)

section \<open>Updates\<close>

text \<open>
  C6. An update whose body has no effective field (title and content both null or
  absent) is answered 400 "Nothing to update" whatever the store holds, so before any
  access to it, and the store is returned as it was.
\<close>

theorem update_without_fields_rejected:
  "update_resume d res_id \<lparr>upd_title = None, upd_content = None\<rparr> current_user =
     (Inl (HTTPException 400 ''Nothing to update''), d)"
  by (simp add: update_resume_def update_data_def body_dict_def)

theorem update_without_fields_rejected_witness:
  "update_resume db1 1 \<lparr>upd_title = None, upd_content = None\<rparr> alice =
     (Inl (HTTPException 400 ''Nothing to update''), db1)"
  by (rule update_without_fields_rejected)

lemma update_data_cases:
  "update_data body =
     (case upd_title body of None \<Rightarrow> [] | Some t \<Rightarrow> [(''title'', t)]) @
     (case upd_content body of None \<Rightarrow> [] | Some c \<Rightarrow> [(''content'', c)])"
  by (simp add: update_data_def body_dict_def split: option.splits)

lemma set_fields_update_data:
  "set_fields (update_data body) r =
     r\<lparr>r_title := (case upd_title body of None \<Rightarrow> r_title r | Some t \<Rightarrow> t),
       r_content := (case upd_content body of None \<Rightarrow> r_content r | Some c \<Rightarrow> c)\<rparr>"
  by (simp add: update_data_cases hasattr_def setattr_def split: option.splits)

lemma map_replace_by_key:
  assumes "distinct (map f xs)" and "x \<in> set xs"
  shows "map (\<lambda>y. if f y = f x then x' else y) xs = map (\<lambda>y. if y = x then x' else y) xs"
proof (rule map_cong [OF refl])
  fix y assume "y \<in> set xs"
  then have "f y = f x \<longleftrightarrow> y = x"
    using distinct_map_eq [OF assms(1) _ assms(2)] by auto
  then show "(if f y = f x then x' else y) = (if y = x then x' else y)" by simp
qed

text \<open>
  C7. A successful update by the owner changes one resume, the one with the requested id
  that the caller owns: its title and its content take the values supplied non-null in
  the body, a field supplied as null keeps its value, its id and its owner stay, and every
  other row of the store is as before.
\<close>

theorem update_changes_supplied_fields_only:
  assumes "db_ok d"
    and "update_resume d res_id body current_user = (Inr out, d')"
  shows "\<exists>r \<in> set (resumes d).
           r_id r = res_id \<and> r_user_id r = u_id current_user \<and>
           out = ResumeOut
                   (r\<lparr>r_title := (case upd_title body of None \<Rightarrow> r_title r | Some t \<Rightarrow> t),
                      r_content := (case upd_content body of None \<Rightarrow> r_content r | Some c \<Rightarrow> c)\<rparr>) \<and>
           d' = d\<lparr>resumes :=
                    map (\<lambda>x. if x = r
                              then r\<lparr>r_title := (case upd_title body of None \<Rightarrow> r_title r | Some t \<Rightarrow> t),
                                     r_content := (case upd_content body of None \<Rightarrow> r_content r | Some c \<Rightarrow> c)\<rparr>
                              else x)
                      (resumes d)\<rparr>"
proof -
  let ?sel = "filter (\<lambda>r. r_id r = res_id \<and> r_user_id r = u_id current_user) (resumes d)"
  have ids: "distinct (map r_id (resumes d))" using assms(1) by (simp add: db_ok_def)
  from assms(2) obtain r where sel: "scalar_one_or_none ?sel = Inr (Some r)"
    by (auto simp: update_resume_def update_for_user_def Let_def
             split: if_splits sum.splits option.splits)
  then have "?sel = [r]"
    by (cases ?sel rule: scalar_one_or_none.cases) auto
  then have "r \<in> set ?sel" by simp
  then have r: "r \<in> set (resumes d)" "r_id r = res_id" "r_user_id r = u_id current_user"
    by auto
  let ?r' = "set_fields (update_data body) r"
  from assms(2) sel have res: "out = ResumeOut ?r'"
    "d' = d\<lparr>resumes := map (\<lambda>x. if r_id x = r_id r then ?r' else x) (resumes d)\<rparr>"
    by (auto simp: update_resume_def update_for_user_def Let_def split: if_splits)
  have "map (\<lambda>x. if r_id x = r_id r then ?r' else x) (resumes d) =
        map (\<lambda>x. if x = r then ?r' else x) (resumes d)"
    by (rule map_replace_by_key [OF ids r(1)])
  with res r show ?thesis
    by (intro bexI [of _ r]) (simp_all add: set_fields_update_data)
qed

theorem update_changes_supplied_fields_only_witness:
  "db_ok db1 \<and>
   update_resume db1 1 \<lparr>upd_title = Some ''T'', upd_content = None\<rparr> alice =
     (Inr \<lparr>out_id = 1, out_title = ''T'', out_content = ''C1''\<rparr>,
      db1\<lparr>resumes := [resume1\<lparr>r_title := ''T''\<rparr>, resume2]\<rparr>) \<and>
   (\<exists>r \<in> set (resumes db1).
      r_id r = 1 \<and> r_user_id r = u_id alice \<and>
      \<lparr>out_id = 1, out_title = ''T'', out_content = ''C1''\<rparr> =
        ResumeOut (r\<lparr>r_title := ''T''\<rparr>) \<and>
      db1\<lparr>resumes := [resume1\<lparr>r_title := ''T''\<rparr>, resume2]\<rparr> =
        db1\<lparr>resumes := map (\<lambda>x. if x = r then r\<lparr>r_title := ''T''\<rparr> else x) (resumes db1)\<rparr>)"
proof -
  have run: "update_resume db1 1 \<lparr>upd_title = Some ''T'', upd_content = None\<rparr> alice =
     (Inr \<lparr>out_id = 1, out_title = ''T'', out_content = ''C1''\<rparr>,
      db1\<lparr>resumes := [resume1\<lparr>r_title := ''T''\<rparr>, resume2]\<rparr>)"
    by (simp add: update_resume_def update_for_user_def update_data_def body_dict_def
                  Let_def hasattr_def setattr_def ResumeOut_def db1_def alice_def resume1_def resume2_def)
  from update_changes_supplied_fields_only [OF db1_ok run]
  obtain r where "r \<in> set (resumes db1)" "r_id r = 1" "r_user_id r = u_id alice"
    "\<lparr>out_id = 1, out_title = ''T'', out_content = ''C1''\<rparr> = ResumeOut (r\<lparr>r_title := ''T''\<rparr>)"
    "db1\<lparr>resumes := [resume1\<lparr>r_title := ''T''\<rparr>, resume2]\<rparr> =
       db1\<lparr>resumes := map (\<lambda>x. if x = r then r\<lparr>r_title := ''T''\<rparr> else x) (resumes db1)\<rparr>"
    by auto
  then have "\<exists>r \<in> set (resumes db1).
      r_id r = 1 \<and> r_user_id r = u_id alice \<and>
      \<lparr>out_id = 1, out_title = ''T'', out_content = ''C1''\<rparr> =
        ResumeOut (r\<lparr>r_title := ''T''\<rparr>) \<and>
      db1\<lparr>resumes := [resume1\<lparr>r_title := ''T''\<rparr>, resume2]\<rparr> =
        db1\<lparr>resumes := map (\<lambda>x. if x = r then r\<lparr>r_title := ''T''\<rparr> else x) (resumes db1)\<rparr>"
    by blast
  with db1_ok run show ?thesis by blast
qed

section \<open>Deletion\<close>

lemma filter_remove_by_key:
  assumes "distinct (map f xs)" and "x \<in> set xs"
  shows "filter (\<lambda>y. f y \<noteq> f x) xs = removeAll x xs"
proof -
  have "filter (\<lambda>y. f y \<noteq> f x) xs = filter (\<lambda>y. x \<noteq> y) xs"
  proof (rule filter_cong [OF refl])
    fix y assume "y \<in> set xs"
    then show "(f y \<noteq> f x) = (x \<noteq> y)"
      using distinct_map_eq [OF assms(1) _ assms(2)] by auto
  qed
  then show ?thesis by (simp add: removeAll_filter_not_eq) 
qed

text \<open>
  C10. Deleting a resume r of user U succeeds, returns r's id, title and content, and
  removes exactly r: the store afterwards is the store before without r (every other
  row, of U and of everybody else, is kept as it was, and so are the users), and the
  lookup of (r's id, U's id) in it finds nothing.
\<close>

theorem delete_removes_exactly_that_resume:
  assumes "db_ok d" and "r \<in> set (resumes d)" and "r_user_id r = u_id U"
  shows "delete_resume d (r_id r) U =
           (Inr \<lparr>out_id = r_id r, out_title = r_title r, out_content = r_content r\<rparr>,
            d\<lparr>resumes := removeAll r (resumes d)\<rparr>) \<and>
         get_by_id_for_user (d\<lparr>resumes := removeAll r (resumes d)\<rparr>) (r_id r) (u_id U) = Inr None"
proof -
  have ids: "distinct (map r_id (resumes d))" using assms(1) by (simp add: db_ok_def)
  have sel: "filter (\<lambda>x. r_id x = r_id r \<and> r_user_id x = u_id U) (resumes d) = [r]"
    using owned_lookup [OF assms(1,2), of "u_id U"] assms(3) by simp
  have del: "delete_resume d (r_id r) U =
               (Inr \<lparr>out_id = r_id r, out_title = r_title r, out_content = r_content r\<rparr>,
                d\<lparr>resumes := removeAll r (resumes d)\<rparr>)"
    by (simp add: delete_resume_def delete_for_user_def sel ResumeOut_def
                  filter_remove_by_key [OF ids assms(2)])
  have "r_id x \<noteq> r_id r" if "x \<in> set (removeAll r (resumes d))" for x
    using that distinct_map_eq [OF ids _ assms(2)] by auto
  then have "filter (\<lambda>x. r_id x = r_id r \<and> r_user_id x = u_id U)
               (removeAll r (resumes d)) = []"
    by (auto simp: filter_empty_conv)
  then have "get_by_id_for_user (d\<lparr>resumes := removeAll r (resumes d)\<rparr>) (r_id r) (u_id U)
               = Inr None"
    by (simp add: get_by_id_for_user_def)
  with del show ?thesis by simp
qed

theorem delete_removes_exactly_that_resume_witness:
  "db_ok db1 \<and> resume1 \<in> set (resumes db1) \<and> r_user_id resume1 = u_id alice \<and>
   delete_resume db1 1 alice =
     (Inr \<lparr>out_id = 1, out_title = ''R1'', out_content = ''C1''\<rparr>,
      \<lparr>users = [alice, bob], resumes = [resume2], user_seq = 2, resume_seq = 2\<rparr>) \<and>
   get_by_id_for_user \<lparr>users = [alice, bob], resumes = [resume2], user_seq = 2, resume_seq = 2\<rparr>
     1 (u_id alice) = Inr None"
proof -
  have h: "resume1 \<in> set (resumes db1)" "r_user_id resume1 = u_id alice"
    by (simp_all add: db1_def resume1_def alice_def)
  have v: "r_id resume1 = 1" "r_title resume1 = ''R1''" "r_content resume1 = ''C1''"
    "db1\<lparr>resumes := removeAll resume1 (resumes db1)\<rparr> =
       \<lparr>users = [alice, bob], resumes = [resume2], user_seq = 2, resume_seq = 2\<rparr>"
    by (simp_all add: db1_def resume1_def resume2_def)
  from delete_removes_exactly_that_resume [OF db1_ok h] db1_ok h
  show ?thesis by (simp add: v)
qed

section \<open>Registration and login\<close>

text \<open>
  C8. Registering an email that a user of the store already has is answered 400 (the
  email already exists), and the store is unchanged: no user is added, and the existing
  user's email and password hash stay as they were.
\<close>

theorem duplicate_registration_rejected:
  assumes "db_ok d" and "u \<in> set (users d)" and "u_email u = reg_email body"
  shows "register cfg ctx now d body = (Inl (HTTPException 400 detail_email_exists), d)"
  using user_lookup [OF assms(1,2)] assms(3) by (simp add: register_def)

theorem duplicate_registration_rejected_witness:
  "db_ok db1 \<and> alice \<in> set (users db1) \<and>
   u_email alice = reg_email \<lparr>reg_email = ''a@x.com'', reg_password = ''another-pw''\<rparr> \<and>
   register cfg0 ctx0 0 db1 \<lparr>reg_email = ''a@x.com'', reg_password = ''another-pw''\<rparr> =
     (Inl (HTTPException 400 detail_email_exists), db1)"
proof -
  have h: "alice \<in> set (users db1)"
    "u_email alice = reg_email \<lparr>reg_email = ''a@x.com'', reg_password = ''another-pw''\<rparr>"
    by (simp_all add: db1_def alice_def)
  from duplicate_registration_rejected [OF db1_ok h] db1_ok h show ?thesis by simp
qed

text \<open>
  A wrong password that passlib accepts for checking gets the answer of an unknown email.
\<close>

lemma failed_logins_same_answer:
  assumes "db_ok d"
    and "login_email b1 \<notin> u_email ` set (users d)"
    and "u \<in> set (users d)" and "u_email u = login_email b2"
    and "verify_password ctx (login_password b2) (u_hashed_password u) = Inr False"
  shows "login cfg ctx t1 d b1 = Inl (HTTPException 401 detail_bad_credentials) \<and>
         login cfg ctx t2 d b2 = login cfg ctx t1 d b1"
  using user_lookup_absent [OF assms(2)] user_lookup [OF assms(1,3)] assms(4,5)
  by (simp add: login_def)

lemma length_x_4097: "length (replicate 4097 (CHR ''x'')) > MAX_PASSWORD_SIZE"
  by (simp add: MAX_PASSWORD_SIZE_def)

text \<open>
  C9. Two failing logins with the same password of 4097 characters (no registered
  password is that long: registration allows 128): for the email of no user the answer
  is 401 with the bad-credentials message, for alice's email \<open>verify_password\<close> raises
  \<open>ValueError\<close>, which is not the 401 (the client sees status 500). With an ordinary
  wrong password alice's email gets the 401.
\<close>

theorem login_overlong_password_tells_registered_email:
  "login cfg0 ctx0 0 db1
     \<lparr>login_email = ''nobody@x.com'', login_password = replicate 4097 (CHR ''x'')\<rparr> =
     Inl (HTTPException 401 detail_bad_credentials) \<and>
   login cfg0 ctx0 0 db1
     \<lparr>login_email = ''a@x.com'', login_password = replicate 4097 (CHR ''x'')\<rparr> =
     Inl ValueError \<and>
   status_code (HTTPException 401 detail_bad_credentials) = 401 \<and>
   status_code ValueError = 500 \<and>
   login cfg0 ctx0 0 db1 \<lparr>login_email = ''a@x.com'', login_password = ''wrongpass''\<rparr> =
     Inl (HTTPException 401 detail_bad_credentials)"
proof -
  have users: "get_user_by_email db1 ''nobody@x.com'' = Inr None"
    "get_user_by_email db1 ''a@x.com'' = Inr (Some alice)"
    by (simp_all add: get_user_by_email_def db1_def alice_def bob_def)
  have long: "verify_password ctx0 (replicate 4097 (CHR ''x'')) (u_hashed_password alice) =
                Inl ValueError"
    using length_x_4097
    by (simp add: verify_password_def pwd_context_verify_def validate_secret_def
                  ctx0_def alice_def)
  have wrong: "verify_password ctx0 ''wrongpass'' (u_hashed_password alice) = Inr False"
    by (simp add: verify_password_def pwd_context_verify_def validate_secret_def
                  MAX_PASSWORD_SIZE_def ctx0_def alice_def)
  show ?thesis by (simp add: login_def users long wrong)
qed

section \<open>The improve operation\<close>

text \<open>
  C5. The improve operation on a resume of the caller: where \<open>get_resume\<close> returns the
  resume, \<open>improve_resume\<close> ends in \<open>TypeError\<close> instead of returning its content with
  " [Improved]" appended.
\<close>

theorem improve_resume_raises_type_error:
  "get_resume db1 1 alice = Inr \<lparr>out_id = 1, out_title = ''R1'', out_content = ''C1''\<rparr> \<and>
   improve_resume db1 1 alice = Inl TypeError"
  by (simp add: get_resume_def improve_resume_def get_by_id_for_user_def ResumeOut_def
                db1_def alice_def resume1_def resume2_def)

section \<open>Tokens and authentication\<close>

lemma int_timestamp_nonneg: "0 \<le> t \<Longrightarrow> int_timestamp t = t div 1000000"
  by (simp add: int_timestamp_def)

lemma decode_issued:
  "jwt_decode t (access_token (create_access_token cfg now sub m)) (JWT_SECRET cfg) [JWT_ALG cfg] =
     (if int_timestamp (expires_at (create_access_token cfg now sub m)) < timegm_utctimetuple t
      then Inl ExpiredSignatureError
      else Inr \<lparr>c_sub = Some sub, c_iat = Some (int_timestamp now),
                c_exp = Some (int_timestamp (expires_at (create_access_token cfg now sub m)))\<rparr>)"
  by (simp add: create_access_token_def jwt_encode_def Let_def)

lemma issued_not_empty: "access_token (create_access_token cfg now sub m) \<noteq> Opaque []"
  by (simp add: create_access_token_def jwt_encode_def Let_def)

lemma expires_at_issued:
  "expires_at (create_access_token cfg now sub m) = now + m * 60000000"
  by (simp add: create_access_token_def Let_def timedelta_minutes_def)

lemma get_user_by_email_none:
  assumes "get_user_by_email d e = Inr None"
  shows "e \<notin> u_email ` set (users d)"
proof -
  have "filter (\<lambda>u. u_email u = e) (users d) = []"
    using assms unfolding get_user_by_email_def
    by (cases "filter (\<lambda>u. u_email u = e) (users d)" rule: scalar_one_or_none.cases) auto
  then show ?thesis by (auto simp: filter_empty_conv)
qed

text \<open>
  C3 (as amended). Every failure of \<open>get_current_user\<close> is an \<open>HTTPException\<close> with
  status 401 and one of four detail messages, and the message tells the class of the
  failure: "Missing token" exactly for the empty token; "Invalid or expired token" exactly
  for a non-empty token that \<open>jwt.decode\<close> rejects, whatever the reason of the rejection
  (malformed, algorithm or signature mismatch, expired); "Invalid token" exactly for a
  token that decodes and has no subject or an empty one; "User not found" exactly for a
  token that decodes to a non-empty subject that is the email of no user.
\<close>

theorem auth_failure_outcomes:
  assumes "db_ok d" and "get_current_user cfg d now token = Inl e"
  shows "status_code e = 401 \<and>
         e \<in> {HTTPException 401 ''Missing token'',
              HTTPException 401 ''Invalid or expired token'',
              HTTPException 401 ''Invalid token'',
              HTTPException 401 ''User not found''} \<and>
         (e = HTTPException 401 ''Missing token'' \<longleftrightarrow> token = Opaque []) \<and>
         (e = HTTPException 401 ''Invalid or expired token'' \<longleftrightarrow>
            token \<noteq> Opaque [] \<and> isl (jwt_decode now token (JWT_SECRET cfg) [JWT_ALG cfg])) \<and>
         (e = HTTPException 401 ''Invalid token'' \<longleftrightarrow>
            token \<noteq> Opaque [] \<and>
            (\<exists>payload. jwt_decode now token (JWT_SECRET cfg) [JWT_ALG cfg] = Inr payload \<and>
                       (c_sub payload = None \<or> c_sub payload = Some []))) \<and>
         (e = HTTPException 401 ''User not found'' \<longleftrightarrow>
            token \<noteq> Opaque [] \<and>
            (\<exists>payload sub. jwt_decode now token (JWT_SECRET cfg) [JWT_ALG cfg] = Inr payload \<and>
                           c_sub payload = Some sub \<and> sub \<noteq> [] \<and>
                           sub \<notin> u_email ` set (users d)))"
proof (cases "token = Opaque []")
  case True
  with assms(2) have "e = HTTPException 401 ''Missing token''"
    by (simp add: get_current_user_def)
  with True show ?thesis by simp
next
  case False
  show ?thesis
  proof (cases "jwt_decode now token (JWT_SECRET cfg) [JWT_ALG cfg]")
    case (Inl je)
    with False assms(2) have "e = HTTPException 401 ''Invalid or expired token''"
      by (simp add: get_current_user_def)
    with False Inl show ?thesis by simp
  next
    case (Inr payload)
    show ?thesis
    proof (cases "c_sub payload = None \<or> c_sub payload = Some []")
      case True
      with False Inr assms(2) have "e = HTTPException 401 ''Invalid token''"
        by (auto simp: get_current_user_def)
      with False Inr True show ?thesis by auto
    next
      case nonempty: False
      then obtain sub where sub: "c_sub payload = Some sub" "sub \<noteq> []" by auto
      obtain r where r: "get_user_by_email d sub = Inr r"
        using get_user_by_email_ok [OF assms(1)] by blast
      with False Inr sub assms(2) have none: "r = None"
        and e: "e = HTTPException 401 ''User not found''"
        by (auto simp: get_current_user_def split: option.splits)
      from r none have "sub \<notin> u_email ` set (users d)"
        by (simp add: get_user_by_email_none)
      with False Inr sub e show ?thesis by simp
    qed
  qed
qed

theorem auth_failure_outcomes_witness:
  "db_ok db1 \<and>
   get_current_user cfg0 db1 0 (Opaque []) = Inl (HTTPException 401 ''Missing token'') \<and>
   get_current_user cfg0 db1 0 (Opaque ''abc'') =
     Inl (HTTPException 401 ''Invalid or expired token'') \<and>
   isl (jwt_decode 0 (Opaque ''abc'') (JWT_SECRET cfg0) [JWT_ALG cfg0]) \<and>
   get_current_user cfg0 db1 0
     (jwt_encode \<lparr>c_sub = None, c_iat = Some 0, c_exp = Some 1800\<rparr> ''s3cret'' ''HS256'') =
     Inl (HTTPException 401 ''Invalid token'') \<and>
   (\<exists>payload.
      jwt_decode 0
        (jwt_encode \<lparr>c_sub = None, c_iat = Some 0, c_exp = Some 1800\<rparr> ''s3cret'' ''HS256'')
        (JWT_SECRET cfg0) [JWT_ALG cfg0] = Inr payload \<and>
      (c_sub payload = None \<or> c_sub payload = Some [])) \<and>
   get_current_user cfg0 db1 0 (access_token (create_access_token cfg0 0 ''ghost@x.com'' 30)) =
     Inl (HTTPException 401 ''User not found'') \<and>
   (\<exists>payload sub.
      jwt_decode 0 (access_token (create_access_token cfg0 0 ''ghost@x.com'' 30))
        (JWT_SECRET cfg0) [JWT_ALG cfg0] = Inr payload \<and>
      c_sub payload = Some sub \<and> sub \<noteq> [] \<and> sub \<notin> u_email ` set (users db1))"
proof -
  have run1: "get_current_user cfg0 db1 0 (Opaque []) = Inl (HTTPException 401 ''Missing token'')"
    by (simp add: get_current_user_def)
  have run2: "get_current_user cfg0 db1 0 (Opaque ''abc'') =
     Inl (HTTPException 401 ''Invalid or expired token'')"
    by (simp add: get_current_user_def)
  have run3: "get_current_user cfg0 db1 0
     (jwt_encode \<lparr>c_sub = None, c_iat = Some 0, c_exp = Some 1800\<rparr> ''s3cret'' ''HS256'') =
     Inl (HTTPException 401 ''Invalid token'')"
    by (simp add: get_current_user_def jwt_encode_def timegm_utctimetuple_def cfg0_def)
  have run4: "get_current_user cfg0 db1 0
     (access_token (create_access_token cfg0 0 ''ghost@x.com'' 30)) =
     Inl (HTTPException 401 ''User not found'')"
    by (simp add: get_current_user_def create_access_token_def jwt_encode_def Let_def
                  timegm_utctimetuple_def int_timestamp_def timedelta_minutes_def
                  get_user_by_email_def cfg0_def db1_def alice_def bob_def)
  note cause2 = auth_failure_outcomes [OF db1_ok run2, THEN conjunct2, THEN conjunct2,
      THEN conjunct2, THEN conjunct1, THEN iffD1, OF refl, THEN conjunct2]
  note cause3 = auth_failure_outcomes [OF db1_ok run3, THEN conjunct2, THEN conjunct2,
      THEN conjunct2, THEN conjunct2, THEN conjunct1, THEN iffD1, OF refl, THEN conjunct2]
  note cause4 = auth_failure_outcomes [OF db1_ok run4, THEN conjunct2, THEN conjunct2,
      THEN conjunct2, THEN conjunct2, THEN conjunct2, THEN iffD1, OF refl, THEN conjunct2]
  show ?thesis
    by (intro conjI) (rule db1_ok run1 run2 cause2 run3 cause3 run4 cause4)+
qed

text \<open>
  C3 as stated fails: the empty token, a malformed token, a signed token without subject
  and a signed token of an unknown subject get four different detail messages.
\<close>

theorem auth_failures_distinguishable:
  "get_current_user cfg0 db1 0 (Opaque []) = Inl (HTTPException 401 ''Missing token'') \<and>
   get_current_user cfg0 db1 0 (Opaque ''abc'') =
     Inl (HTTPException 401 ''Invalid or expired token'') \<and>
   get_current_user cfg0 db1 0
     (jwt_encode \<lparr>c_sub = None, c_iat = Some 0, c_exp = Some 1800\<rparr> ''s3cret'' ''HS256'') =
     Inl (HTTPException 401 ''Invalid token'') \<and>
   get_current_user cfg0 db1 0 (access_token (create_access_token cfg0 0 ''ghost@x.com'' 30)) =
     Inl (HTTPException 401 ''User not found'') \<and>
   get_current_user cfg0 db1 0 (Opaque []) \<noteq> get_current_user cfg0 db1 0 (Opaque ''abc'')"
  by (simp add: get_current_user_def create_access_token_def jwt_encode_def Let_def
                timegm_utctimetuple_def int_timestamp_def timedelta_minutes_def
                get_user_by_email_def cfg0_def db1_def alice_def bob_def)

text \<open>
  C2 (as amended). A token issued by \<open>create_access_token\<close> (at a time not before the
  epoch, for a lifetime that is not negative) is rejected as "Invalid or expired token"
  exactly when the whole second of the validation time is strictly after the whole second
  of \<open>expires_at\<close>. So it is rejected from the start of the second that follows
  \<open>expires_at\<close>, and not before.
\<close>

theorem issued_token_rejected_after_expiry_second:
  assumes "0 \<le> now" and "0 \<le> expires_minutes"
  shows "get_current_user cfg d t
           (access_token (create_access_token cfg now sub expires_minutes)) =
           Inl (HTTPException 401 ''Invalid or expired token'')
         \<longleftrightarrow>
         expires_at (create_access_token cfg now sub expires_minutes) div 1000000
           < t div 1000000"
proof -
  let ?tok = "create_access_token cfg now sub expires_minutes"
  have "0 \<le> expires_at ?tok" using assms by (simp add: expires_at_issued)
  then have ts: "int_timestamp (expires_at ?tok) = expires_at ?tok div 1000000"
    by (rule int_timestamp_nonneg)
  show ?thesis
  proof (cases "expires_at ?tok div 1000000 < t div 1000000")
    case True
    then show ?thesis
      by (simp add: get_current_user_def issued_not_empty decode_issued ts
                    timegm_utctimetuple_def)
  next
    case False
    then show ?thesis
      by (auto simp: get_current_user_def issued_not_empty decode_issued ts
                     timegm_utctimetuple_def
               split: sum.splits option.splits dest: get_user_by_email_error)
  qed
qed

theorem issued_token_rejected_after_expiry_second_witness:
  "(0::int) \<le> 1500000 \<and> (0::int) \<le> 1 \<and>
   expires_at (create_access_token cfg0 1500000 ''a@x.com'' 1) div 1000000
     < (62000000::int) div 1000000 \<and>
   get_current_user cfg0 db1 62000000
     (access_token (create_access_token cfg0 1500000 ''a@x.com'' 1)) =
     Inl (HTTPException 401 ''Invalid or expired token'')"
proof -
  have h: "(0::int) \<le> 1500000" "(0::int) \<le> 1" by simp_all
  have late: "expires_at (create_access_token cfg0 1500000 ''a@x.com'' 1) div 1000000
     < (62000000::int) div 1000000"
    by (simp add: expires_at_issued)
  from issued_token_rejected_after_expiry_second [OF h, of cfg0 db1 62000000 "''a@x.com''"]
    h late show ?thesis by blast
qed

text \<open>
  C2 as stated fails: a token issued at 1.5 s for one minute has \<open>expires_at\<close> = 61.5 s,
  and is accepted at 61.5 s (exactly at expiry) and at 61.9 s (strictly after it).
\<close>

theorem issued_token_accepted_at_expiry:
  "expires_at (create_access_token cfg0 1500000 ''a@x.com'' 1) = 61500000 \<and>
   get_current_user cfg0 db1 61500000
     (access_token (create_access_token cfg0 1500000 ''a@x.com'' 1)) = Inr alice \<and>
   get_current_user cfg0 db1 61900000
     (access_token (create_access_token cfg0 1500000 ''a@x.com'' 1)) = Inr alice"
  by (simp add: get_current_user_def create_access_token_def jwt_encode_def Let_def
                timegm_utctimetuple_def int_timestamp_def timedelta_minutes_def
                get_user_by_email_def cfg0_def db1_def alice_def bob_def)

text \<open>
  C4. For every subject and every lifetime greater than zero, the token of
  \<open>create_access_token\<close>, decoded as \<open>get_current_user\<close> decodes it (the same secret, the
  same algorithm) at any time from its issue to before \<open>expires_at\<close>, is accepted, and
  its claims are the ones issued, with the subject it was issued for. When the subject is
  not the empty string, \<open>get_current_user\<close> then answers with what the user directory has
  for that subject: the user with that email, or "User not found".
\<close>

theorem issued_token_validates_to_subject:
  assumes "0 < expires_minutes" and "now \<le> t"
    and "t < expires_at (create_access_token cfg now sub expires_minutes)"
  shows "jwt_decode t (access_token (create_access_token cfg now sub expires_minutes))
           (JWT_SECRET cfg) [JWT_ALG cfg] =
           Inr \<lparr>c_sub = Some sub,
                c_iat = Some (int_timestamp now),
                c_exp = Some (int_timestamp (now + timedelta_minutes expires_minutes))\<rparr> \<and>
         (sub \<noteq> [] \<longrightarrow>
            get_current_user cfg d t
              (access_token (create_access_token cfg now sub expires_minutes)) =
              (case get_user_by_email d sub of
                 Inl err \<Rightarrow> Inl err
               | Inr None \<Rightarrow> Inl (HTTPException 401 ''User not found'')
               | Inr (Some u) \<Rightarrow> Inr u))"
proof -
  let ?tok = "create_access_token cfg now sub expires_minutes"
  have at: "expires_at ?tok = now + timedelta_minutes expires_minutes"
    by (simp add: create_access_token_def Let_def)
  have "t div 1000000 \<le> expires_at ?tok div 1000000"
    using assms(3) by (simp add: zdiv_mono1)
  moreover have "expires_at ?tok div 1000000 \<le> int_timestamp (expires_at ?tok)"
    by (simp add: int_timestamp_def) linarith
  ultimately have live: "\<not> int_timestamp (expires_at ?tok) < timegm_utctimetuple t"
    by (simp add: timegm_utctimetuple_def)
  have dec: "jwt_decode t (access_token ?tok) (JWT_SECRET cfg) [JWT_ALG cfg] =
           Inr \<lparr>c_sub = Some sub,
                c_iat = Some (int_timestamp now),
                c_exp = Some (int_timestamp (now + timedelta_minutes expires_minutes))\<rparr>"
    using live by (simp add: decode_issued at)
  then show ?thesis
    by (simp add: get_current_user_def issued_not_empty)
qed

theorem issued_token_validates_to_subject_witness:
  "(0::int) < 30 \<and> (1500000::int) \<le> 1500000 \<and>
   1500000 < expires_at (create_access_token cfg0 1500000 ''a@x.com'' 30) \<and>
   jwt_decode 1500000 (access_token (create_access_token cfg0 1500000 ''a@x.com'' 30))
     (JWT_SECRET cfg0) [JWT_ALG cfg0] =
     Inr \<lparr>c_sub = Some ''a@x.com'', c_iat = Some 1, c_exp = Some 1801\<rparr> \<and>
   ''a@x.com'' \<noteq> [] \<and>
   get_current_user cfg0 db1 1500000
     (access_token (create_access_token cfg0 1500000 ''a@x.com'' 30)) = Inr alice"
proof -
  have h: "(0::int) < 30" "(1500000::int) \<le> 1500000"
    "1500000 < expires_at (create_access_token cfg0 1500000 ''a@x.com'' 30)"
    by (simp_all add: expires_at_issued)
  have v: "int_timestamp 1500000 = 1" "int_timestamp (1500000 + timedelta_minutes 30) = 1801"
    "get_user_by_email db1 ''a@x.com'' = Inr (Some alice)"
    by (simp_all add: int_timestamp_def timedelta_minutes_def get_user_by_email_def
                      db1_def alice_def bob_def)
  from issued_token_validates_to_subject [OF h, of db1] h
  show ?thesis by (simp add: v)
qed

end
